theory Spec2Isabelle
  imports Main
begin

section \<open>Python values, exceptions and the outside world\<close>

text \<open>
  The module \<open>base_hands.py\<close> defines the class \<open>BaseHands\<close>. Its methods raise
  exceptions, write to the log and call one method of a collaborator,
  \<open>self._parent.writeDigitalOutputWithMask\<close>. Exceptions are values of type \<open>exn\<close>,
  a method returns \<open>exn + 'a\<close> together with the world it leaves behind.
\<close>

datatype exn = IndexError | AttributeError | NotImplementedError string | OtherError string

text \<open>What a call of the collaborator's method does: it returns a bool or raises.\<close>

datatype hw_outcome = HwReturn bool | HwRaise exn

type_synonym hw_call = "int list \<times> int list"

text \<open>
  The collaborator (\<open>parent\<close>, a \<open>HrpsysConfigurator\<close>). \<open>truthy\<close> is the value of
  \<open>bool(parent)\<close>, which \<open>not parent\<close> tests. The method may be absent (\<open>None\<close>: looking
  it up raises \<open>AttributeError\<close>); when present, its outcome may depend on the calls the
  hardware has seen so far and on the two vectors.
\<close>

record parent_obj =
  truthy :: bool
  writeDigitalOutputWithMask :: "(hw_call list \<Rightarrow> int list \<Rightarrow> int list \<Rightarrow> hw_outcome) option"

text \<open>
  The diagnostics the writer emits, in the order of emission: \<open>rospy.logdebug\<close> of the
  commanded indices, the \<open>print\<close> of the two vectors with the index legend, and
  \<open>rospy.logerr\<close> of a message.
\<close>

datatype log_entry =
    Logdebug_indices "int list"
  | Print_vectors "int list" "int list" "int list"
  | Logerr string

record world =
  hw_calls :: "hw_call list"
  diag :: "log_entry list"

definition logw :: "log_entry \<Rightarrow> world \<Rightarrow> world" where
  "logw e w = w\<lparr>diag := diag w @ [e]\<rparr>"

fun is_error_entry :: "log_entry \<Rightarrow> bool" where
  "is_error_entry (Logerr m) = True"
| "is_error_entry (Logdebug_indices xs) = False"
| "is_error_entry (Print_vectors d m p) = False"

section \<open>Python list indexing\<close>

text \<open>
  \<open>xs[j] = v\<close> on a list of length \<open>n\<close>: a negative \<open>j\<close> counts from the end, and
  \<open>j\<close> outside \<open>-n .. n-1\<close> raises \<open>IndexError\<close>.
\<close>

definition py_setitem :: "'a list \<Rightarrow> int \<Rightarrow> 'a \<Rightarrow> exn + 'a list" where
  "py_setitem xs j v =
     (let n = int (length xs); k = (if j < 0 then n + j else j)
      in if 0 \<le> k \<and> k < n then Inr (xs[nat k := v]) else Inl IndexError)"

section \<open>The class BaseHands\<close>

definition HAND_L :: string where "HAND_L = ''1''"
definition HAND_R :: string where "HAND_R = ''2''"

definition DIO_ASSIGN_ON :: int where "DIO_ASSIGN_ON = 1"
definition DIO_ASSIGN_OFF :: int where "DIO_ASSIGN_OFF = 0"
definition DIO_MASK :: int where "DIO_MASK = 0"

definition MSG_ERR_NOTIMPLEMENTED :: string where
  "MSG_ERR_NOTIMPLEMENTED = ''The method is not implemented in the derived class''"

text \<open>
  An instance has at most one attribute, \<open>_parent\<close>; \<open>None\<close> is an instance on which the
  attribute was never set.
\<close>

record BaseHands =
  parent_attr :: "parent_obj option"

text \<open>
  \<open>BaseHands(parent)\<close>: \<open>__init__\<close> returns early on a falsy parent and sets
  \<open>self._parent\<close> otherwise. No path raises.
\<close>

definition BaseHands_init :: "parent_obj \<Rightarrow> exn + BaseHands" where
  "BaseHands_init parent =
     (if \<not> truthy parent then Inr \<lparr>parent_attr = None\<rparr>
      else Inr \<lparr>parent_attr = Some parent\<rparr>)"

subsection \<open>The writer \<open>_dio_writer\<close>\<close>

text \<open>\<open>for i in range(n): xs.append(v)\<close>\<close>

fun append_loop :: "nat \<Rightarrow> 'a \<Rightarrow> 'a list \<Rightarrow> 'a list" where
  "append_loop 0 v xs = xs"
| "append_loop (Suc n) v xs = append_loop n v (xs @ [v])"

text \<open>\<open>for i in indices: xs[i - 1] = v\<close>; the first failing assignment ends the loop.\<close>

fun assign_all :: "int list \<Rightarrow> 'a \<Rightarrow> 'a list \<Rightarrow> exn + 'a list" where
  "assign_all [] v xs = Inr xs"
| "assign_all (i # ixs) v xs =
     (case py_setitem xs (i - 1) v of
        Inl e \<Rightarrow> Inl e
      | Inr xs' \<Rightarrow> assign_all ixs v xs')"

text \<open>
  The two vectors as they stand after both assignment loops: the pair that is printed and
  handed to \<open>writeDigitalOutputWithMask\<close>, or the exception of the first failing
  assignment.
\<close>

definition dio_vectors :: "int list \<Rightarrow> int list \<Rightarrow> int \<Rightarrow> exn + hw_call" where
  "dio_vectors digitalout_indices dio_assignments padding =
     (let dout = append_loop 32 padding [];
          mask_v = append_loop 32 DIO_MASK [];
          signal_alternate =
            (if padding = DIO_ASSIGN_ON then DIO_ASSIGN_OFF else DIO_ASSIGN_ON)
      in case assign_all digitalout_indices signal_alternate dout of
           Inl e \<Rightarrow> Inl e
         | Inr dout' \<Rightarrow>
             (case assign_all dio_assignments 1 mask_v of
                Inl e \<Rightarrow> Inl e
              | Inr mask_v' \<Rightarrow> Inr (dout', mask_v')))"

text \<open>The index legend: \<open>1..9, 0\<close> four times over, without the last eight entries.\<close>

definition print_index :: "int list" where
  "print_index =
     (let p = map (\<lambda>i. let n = int i + 1 in if 10 = n then 0 else n) [0..<10];
          p2 = p @ p;
          p3 = p2 @ p2
      in take (length p3 - 8) p3)"

definition MSG_ATTRIBUTE_ERROR :: string where
  "MSG_ATTRIBUTE_ERROR = ''AttributeError from robot.'' @ [CHR 0x0A] @ ''TODO: Needs handled.''"

definition MSG_DEVICE_NOT_FOUND :: string where
  "MSG_DEVICE_NOT_FOUND =
     [CHR 0x09] @ ''Device was not found. Maybe you'' @ [CHR 0x27] @ ''re'' @ ''on simulator?''"

text \<open>
  The expression \<open>self._parent.writeDigitalOutputWithMask(dout, mask)\<close>: either attribute
  lookup may raise \<open>AttributeError\<close> before anything is called; a call is recorded in
  \<open>hw_calls\<close> whatever its outcome.
\<close>

definition call_parent_write ::
  "BaseHands \<Rightarrow> int list \<Rightarrow> int list \<Rightarrow> world \<Rightarrow> (exn + bool) \<times> world" where
  "call_parent_write self dout mask_v w =
     (case parent_attr self of
        None \<Rightarrow> (Inl AttributeError, w)
      | Some p \<Rightarrow>
          (case writeDigitalOutputWithMask p of
             None \<Rightarrow> (Inl AttributeError, w)
           | Some f \<Rightarrow>
               (let w' = w\<lparr>hw_calls := hw_calls w @ [(dout, mask_v)]\<rparr>
                in case f (hw_calls w) dout mask_v of
                     HwReturn b \<Rightarrow> (Inr b, w')
                   | HwRaise e \<Rightarrow> (Inl e, w'))))"

text \<open>
  \<open>_dio_writer(self, digitalout_indices, dio_assignments, padding)\<close>; the source's
  default for \<open>padding\<close> is \<open>_DIO_ASSIGN_OFF\<close>. In the order of the source: the debug line,
  the two assignment loops (an \<open>IndexError\<close> leaves the method at once), the printed trace,
  then the \<open>try\<close> block, whose handler catches \<open>AttributeError\<close> only, logs two error
  lines and lets the method return the initial \<open>False\<close>. The local list \<open>mask\<close> of the
  source is \<open>mask_v\<close> here.
\<close>

definition dio_writer ::
  "BaseHands \<Rightarrow> int list \<Rightarrow> int list \<Rightarrow> int \<Rightarrow> world \<Rightarrow> (exn + bool) \<times> world" where
  "dio_writer self digitalout_indices dio_assignments padding w =
     (let w1 = logw (Logdebug_indices digitalout_indices) w
      in case dio_vectors digitalout_indices dio_assignments padding of
           Inl e \<Rightarrow> (Inl e, w1)
         | Inr (dout, mask_v) \<Rightarrow>
             (let w2 = logw (Print_vectors dout mask_v print_index) w1
              in case call_parent_write self dout mask_v w2 of
                   (Inr b, w3) \<Rightarrow> (Inr b, w3)
                 | (Inl e, w3) \<Rightarrow>
                     if e = AttributeError
                     then (Inr False,
                           logw (Logerr MSG_DEVICE_NOT_FOUND) (logw (Logerr MSG_ATTRIBUTE_ERROR) w3))
                     else (Inl e, w3)))"

subsection \<open>\<open>init_dio\<close>\<close>

text \<open>
  \<open>init_dio\<close> builds its two arguments in place. \<open>dout = mask = []\<close> creates one list
  object and binds both names to it, so the model keeps a store from object addresses to
  list contents and the names hold addresses.
\<close>

type_synonym store = "nat \<Rightarrow> int list"

text \<open>\<open>for i in range(lo, hi): name.append(i)\<close>, on the object at address \<open>a\<close>.\<close>

fun append_range :: "nat \<Rightarrow> int list \<Rightarrow> store \<Rightarrow> store" where
  "append_range a [] h = h"
| "append_range a (i # ixs) h = append_range a ixs (h(a := h a @ [i]))"

definition init_dio_args :: "int list \<times> int list \<times> int" where
  "init_dio_args =
     (let fresh = (0::nat);
          h0 = (\<lambda>_. []);
          h1 = h0(fresh := []);
          mask_v = fresh;
          dout = fresh;
          h2 = append_range mask_v (map int [16..<32]) h1
      in (h2 dout, h2 mask_v, DIO_ASSIGN_ON))"

definition init_dio :: "BaseHands \<Rightarrow> world \<Rightarrow> (exn + unit) \<times> world" where
  "init_dio self w =
     (case init_dio_args of
        (dout, mask_v, padding) \<Rightarrow>
          (case dio_writer self dout mask_v padding w of
             (Inl e, w') \<Rightarrow> (Inl e, w')
           | (Inr b, w') \<Rightarrow> (Inr (), w')))"

subsection \<open>The gesture methods\<close>

text \<open>
  The seventeen hand commands of the base class. Each body is the single statement
  \<open>raise NotImplementedError(self._MSG_ERR_NOTIMPLEMENTED)\<close>; the three hand-light
  methods take \<open>is_on\<close>.
\<close>

definition airhand_l_drawin :: "BaseHands \<Rightarrow> world \<Rightarrow> (exn + 'r) \<times> world" where
  "airhand_l_drawin self w = (Inl (NotImplementedError MSG_ERR_NOTIMPLEMENTED), w)"

definition airhand_r_drawin :: "BaseHands \<Rightarrow> world \<Rightarrow> (exn + 'r) \<times> world" where
  "airhand_r_drawin self w = (Inl (NotImplementedError MSG_ERR_NOTIMPLEMENTED), w)"

definition airhand_l_keep :: "BaseHands \<Rightarrow> world \<Rightarrow> (exn + 'r) \<times> world" where
  "airhand_l_keep self w = (Inl (NotImplementedError MSG_ERR_NOTIMPLEMENTED), w)"

definition airhand_r_keep :: "BaseHands \<Rightarrow> world \<Rightarrow> (exn + 'r) \<times> world" where
  "airhand_r_keep self w = (Inl (NotImplementedError MSG_ERR_NOTIMPLEMENTED), w)"

definition airhand_l_release :: "BaseHands \<Rightarrow> world \<Rightarrow> (exn + 'r) \<times> world" where
  "airhand_l_release self w = (Inl (NotImplementedError MSG_ERR_NOTIMPLEMENTED), w)"

definition airhand_r_release :: "BaseHands \<Rightarrow> world \<Rightarrow> (exn + 'r) \<times> world" where
  "airhand_r_release self w = (Inl (NotImplementedError MSG_ERR_NOTIMPLEMENTED), w)"

definition gripper_l_close :: "BaseHands \<Rightarrow> world \<Rightarrow> (exn + 'r) \<times> world" where
  "gripper_l_close self w = (Inl (NotImplementedError MSG_ERR_NOTIMPLEMENTED), w)"

definition gripper_r_close :: "BaseHands \<Rightarrow> world \<Rightarrow> (exn + 'r) \<times> world" where
  "gripper_r_close self w = (Inl (NotImplementedError MSG_ERR_NOTIMPLEMENTED), w)"

definition gripper_l_open :: "BaseHands \<Rightarrow> world \<Rightarrow> (exn + 'r) \<times> world" where
  "gripper_l_open self w = (Inl (NotImplementedError MSG_ERR_NOTIMPLEMENTED), w)"

definition gripper_r_open :: "BaseHands \<Rightarrow> world \<Rightarrow> (exn + 'r) \<times> world" where
  "gripper_r_open self w = (Inl (NotImplementedError MSG_ERR_NOTIMPLEMENTED), w)"

definition handlight_r :: "BaseHands \<Rightarrow> bool \<Rightarrow> world \<Rightarrow> (exn + 'r) \<times> world" where
  "handlight_r self is_on w = (Inl (NotImplementedError MSG_ERR_NOTIMPLEMENTED), w)"

definition handlight_l :: "BaseHands \<Rightarrow> bool \<Rightarrow> world \<Rightarrow> (exn + 'r) \<times> world" where
  "handlight_l self is_on w = (Inl (NotImplementedError MSG_ERR_NOTIMPLEMENTED), w)"

definition handlight_both :: "BaseHands \<Rightarrow> bool \<Rightarrow> world \<Rightarrow> (exn + 'r) \<times> world" where
  "handlight_both self is_on w = (Inl (NotImplementedError MSG_ERR_NOTIMPLEMENTED), w)"

definition handtool_l_eject :: "BaseHands \<Rightarrow> world \<Rightarrow> (exn + 'r) \<times> world" where
  "handtool_l_eject self w = (Inl (NotImplementedError MSG_ERR_NOTIMPLEMENTED), w)"

definition handtool_r_eject :: "BaseHands \<Rightarrow> world \<Rightarrow> (exn + 'r) \<times> world" where
  "handtool_r_eject self w = (Inl (NotImplementedError MSG_ERR_NOTIMPLEMENTED), w)"

definition handtool_l_attach :: "BaseHands \<Rightarrow> world \<Rightarrow> (exn + 'r) \<times> world" where
  "handtool_l_attach self w = (Inl (NotImplementedError MSG_ERR_NOTIMPLEMENTED), w)"

definition handtool_r_attach :: "BaseHands \<Rightarrow> world \<Rightarrow> (exn + 'r) \<times> world" where
  "handtool_r_attach self w = (Inl (NotImplementedError MSG_ERR_NOTIMPLEMENTED), w)"

text \<open>
  How a gesture call resolves. A gesture is called by name on an instance of a class derived from
  \<open>BaseHands\<close>; the derived class is the table of the gestures it overrides, and a name
  it does not define resolves to the method of the base class. \<open>is_on\<close> reaches the
  hand-light methods only.
\<close>

datatype gesture =
    Airhand_l_drawin | Airhand_r_drawin | Airhand_l_keep | Airhand_r_keep
  | Airhand_l_release | Airhand_r_release
  | Gripper_l_close | Gripper_r_close | Gripper_l_open | Gripper_r_open
  | Handlight_r | Handlight_l | Handlight_both
  | Handtool_l_eject | Handtool_r_eject | Handtool_l_attach | Handtool_r_attach

type_synonym 'r hand_method = "BaseHands \<Rightarrow> bool \<Rightarrow> world \<Rightarrow> (exn + 'r) \<times> world"

fun BaseHands_method :: "gesture \<Rightarrow> 'r hand_method" where
  "BaseHands_method Airhand_l_drawin self is_on w = airhand_l_drawin self w"
| "BaseHands_method Airhand_r_drawin self is_on w = airhand_r_drawin self w"
| "BaseHands_method Airhand_l_keep self is_on w = airhand_l_keep self w"
| "BaseHands_method Airhand_r_keep self is_on w = airhand_r_keep self w"
| "BaseHands_method Airhand_l_release self is_on w = airhand_l_release self w"
| "BaseHands_method Airhand_r_release self is_on w = airhand_r_release self w"
| "BaseHands_method Gripper_l_close self is_on w = gripper_l_close self w"
| "BaseHands_method Gripper_r_close self is_on w = gripper_r_close self w"
| "BaseHands_method Gripper_l_open self is_on w = gripper_l_open self w"
| "BaseHands_method Gripper_r_open self is_on w = gripper_r_open self w"
| "BaseHands_method Handlight_r self is_on w = handlight_r self is_on w"
| "BaseHands_method Handlight_l self is_on w = handlight_l self is_on w"
| "BaseHands_method Handlight_both self is_on w = handlight_both self is_on w"
| "BaseHands_method Handtool_l_eject self is_on w = handtool_l_eject self w"
| "BaseHands_method Handtool_r_eject self is_on w = handtool_r_eject self w"
| "BaseHands_method Handtool_l_attach self is_on w = handtool_l_attach self w"
| "BaseHands_method Handtool_r_attach self is_on w = handtool_r_attach self w"

definition call_gesture :: "(gesture \<Rightarrow> 'r hand_method option) \<Rightarrow> gesture \<Rightarrow> 'r hand_method" where
  "call_gesture overrides g =
     (case overrides g of
        Some m \<Rightarrow> m
      | None \<Rightarrow> BaseHands_method g)"

section \<open>Vocabulary of the properties\<close>

text \<open>
  An index \<open>i\<close> that the assignment \<open>xs[i - 1] = v\<close> accepts on a list of length \<open>n\<close>,
  and the position (counted from 0) it then writes.
\<close>

definition py_index_ok :: "nat \<Rightarrow> int \<Rightarrow> bool" where
  "py_index_ok n i = (- int n \<le> i - 1 \<and> i - 1 < int n)"

definition py_pos :: "nat \<Rightarrow> int \<Rightarrow> nat" where
  "py_pos n i = nat (if i - 1 < 0 then int n + (i - 1) else i - 1)"

text \<open>A channel number of the register: \<open>1 .. 32\<close>.\<close>

definition is_channel :: "int \<Rightarrow> bool" where
  "is_channel i = (1 \<le> i \<and> i \<le> 32)"

text \<open>
  The collaborator cannot perform the write: the instance has no \<open>_parent\<close>, the parent
  has no such method, or the method raises \<open>AttributeError\<close>. Against it, the hardware
  taking the call and answering \<open>False\<close>.
\<close>

definition capability_missing :: "BaseHands \<Rightarrow> hw_call list \<Rightarrow> int list \<Rightarrow> int list \<Rightarrow> bool" where
  "capability_missing self calls dout mask_v =
     (case parent_attr self of
        None \<Rightarrow> True
      | Some p \<Rightarrow>
          (case writeDigitalOutputWithMask p of
             None \<Rightarrow> True
           | Some f \<Rightarrow> f calls dout mask_v = HwRaise AttributeError))"

definition hardware_rejects :: "BaseHands \<Rightarrow> hw_call list \<Rightarrow> int list \<Rightarrow> int list \<Rightarrow> bool" where
  "hardware_rejects self calls dout mask_v =
     (case parent_attr self of
        None \<Rightarrow> False
      | Some p \<Rightarrow>
          (case writeDigitalOutputWithMask p of
             None \<Rightarrow> False
           | Some f \<Rightarrow> f calls dout mask_v = HwReturn False))"

text \<open>The hardware calls made between two worlds.\<close>

definition calls_made :: "world \<Rightarrow> world \<Rightarrow> hw_call list" where
  "calls_made w w' = drop (length (hw_calls w)) (hw_calls w')"

section \<open>Lemmas about the loops and the writer\<close>

lemma append_loop_replicate: "append_loop n v xs = xs @ replicate n v"
  by (induction n arbitrary: xs) (auto simp: replicate_append_same)

lemma assign_all_ok:
  "\<forall>i\<in>set ixs. py_index_ok (length xs) i \<Longrightarrow>
   assign_all ixs v xs =
     Inr (map (\<lambda>k. if k \<in> py_pos (length xs) ` set ixs then v else xs ! k) [0..<length xs])"
proof (induction ixs arbitrary: xs)
  case Nil
  then show ?case by (simp add: map_nth)
next
  case (Cons i ixs)
  let ?n = "length xs"
  let ?p = "py_pos ?n i"
  from Cons.prems have ok: "py_index_ok ?n i" by simp
  then have p: "?p < ?n" by (auto simp: py_index_ok_def py_pos_def)
  from ok have step: "py_setitem xs (i - 1) v = Inr (xs[?p := v])"
    by (auto simp: py_setitem_def py_index_ok_def py_pos_def Let_def)
  have "assign_all ixs v (xs[?p := v]) =
     Inr (map (\<lambda>k. if k \<in> py_pos (length (xs[?p := v])) ` set ixs then v else xs[?p := v] ! k)
        [0..<length (xs[?p := v])])"
    using Cons.prems by (intro Cons.IH) simp
  then show ?case using step p
    by (auto simp: nth_list_update intro!: nth_equalityI)
qed

lemma dio_vectors_ok:
  assumes "\<forall>i\<in>set ds. py_index_ok 32 i" and "\<forall>i\<in>set as. py_index_ok 32 i"
  shows "dio_vectors ds as padding =
     Inr (map (\<lambda>k. if k \<in> py_pos 32 ` set ds
                    then (if padding = DIO_ASSIGN_ON then DIO_ASSIGN_OFF else DIO_ASSIGN_ON)
                    else padding) [0..<32],
          map (\<lambda>k. if k \<in> py_pos 32 ` set as then 1 else 0) [0..<32])"
proof -
  have d: "assign_all ds v (replicate 32 padding) =
      Inr (map (\<lambda>k. if k \<in> py_pos 32 ` set ds then v else padding) [0..<32])" for v
    using assms(1) assign_all_ok [of ds "replicate 32 padding" v] by simp
  have m: "assign_all as (1::int) (replicate 32 0) =
      Inr (map (\<lambda>k. if k \<in> py_pos 32 ` set as then 1 else 0) [0..<32])"
    using assms(2) assign_all_ok [of as "replicate 32 (0::int)" 1] by simp
  show ?thesis
    unfolding dio_vectors_def Let_def append_loop_replicate DIO_MASK_def
    by (simp only: append_Nil d m sum.case prod.case)
qed

lemma channel_index_ok: "is_channel i \<Longrightarrow> py_index_ok 32 i"
  by (simp add: is_channel_def py_index_ok_def)

lemma channel_pos_mem:
  assumes "\<forall>i\<in>set ixs. is_channel i" and "is_channel c"
  shows "nat (c - 1) \<in> py_pos 32 ` set ixs \<longleftrightarrow> c \<in> set ixs"
proof
  assume "nat (c - 1) \<in> py_pos 32 ` set ixs"
  then obtain i where i: "i \<in> set ixs" "nat (c - 1) = py_pos 32 i" by auto
  with assms have "i = c" by (auto simp: is_channel_def py_pos_def split: if_splits)
  with i show "c \<in> set ixs" by simp
next
  assume "c \<in> set ixs"
  moreover have "py_pos 32 c = nat (c - 1)"
    using assms(2) by (simp add: is_channel_def py_pos_def)
  ultimately show "nat (c - 1) \<in> py_pos 32 ` set ixs" by force
qed

lemma count_owned:
  assumes "\<forall>i\<in>set ixs. is_channel i"
  shows "count_list (map (\<lambda>k. if k \<in> py_pos 32 ` set ixs then 1 else (0::int)) [0..<32]) 1
         = card (set ixs)"
proof -
  let ?S = "py_pos 32 ` set ixs"
  have sub: "?S \<subseteq> {0..<32}"
    using assms by (auto simp: is_channel_def py_pos_def)
  have "count_list (map (\<lambda>k. if k \<in> ?S then 1 else (0::int)) [0..<32]) 1
        = length (filter (\<lambda>k. k \<in> ?S) [0..<32])"
    by (simp add: count_list_eq_length_filter filter_map comp_def)
  also have "\<dots> = card ({k. k \<in> ?S} \<inter> set [0..<32])"
    by (rule distinct_length_filter) simp
  also have "{k. k \<in> ?S} \<inter> set [0..<32] = ?S" using sub by auto
  also have "card ?S = card (set ixs)"
  proof (rule card_image)
    show "inj_on (py_pos 32) (set ixs)"
      using assms by (auto simp: inj_on_def is_channel_def py_pos_def split: if_splits)
  qed
  finally show ?thesis .
qed

lemma mask_nth:
  assumes "\<forall>i\<in>set as. is_channel i" and "is_channel c"
  shows "map (\<lambda>k. if k \<in> py_pos 32 ` set as then 1 else (0::int)) [0..<32] ! nat (c - 1) =
           (if c \<in> set as then 1 else 0)"
proof -
  from assms(2) have lt: "nat (c - 1) < 32" unfolding is_channel_def by linarith
  have "map (\<lambda>k. if k \<in> py_pos 32 ` set as then 1 else (0::int)) [0..<32] ! nat (c - 1) =
          (if nat (c - 1) \<in> py_pos 32 ` set as then 1 else 0)"
    using lt by (simp del: upt_Suc)
  then show ?thesis unfolding channel_pos_mem [OF assms] .
qed

lemma dio_writer_hw_calls:
  "hw_calls (snd (dio_writer self ds as padding w)) =
     hw_calls w @
       (case dio_vectors ds as padding of
          Inl e \<Rightarrow> []
        | Inr v \<Rightarrow>
            (case parent_attr self of
               None \<Rightarrow> []
             | Some p \<Rightarrow>
                 (case writeDigitalOutputWithMask p of
                    None \<Rightarrow> []
                  | Some f \<Rightarrow> [v])))"
  by (auto simp: dio_writer_def call_parent_write_def logw_def Let_def
           split: sum.split prod.split option.split hw_outcome.split)

lemma dio_writer_calls_made:
  "calls_made w (snd (dio_writer self ds as padding w)) =
       (case dio_vectors ds as padding of
          Inl e \<Rightarrow> []
        | Inr v \<Rightarrow>
            (case parent_attr self of
               None \<Rightarrow> []
             | Some p \<Rightarrow>
                 (case writeDigitalOutputWithMask p of
                    None \<Rightarrow> []
                  | Some f \<Rightarrow> [v])))"
  by (simp add: calls_made_def dio_writer_hw_calls)

lemma dio_writer_returns:
  assumes "dio_vectors ds as padding = Inr (dout, mask_v)"
    and "parent_attr self = Some p" and "writeDigitalOutputWithMask p = Some f"
    and "f (hw_calls w) dout mask_v = HwReturn b"
  shows "dio_writer self ds as padding w =
           (Inr b, w\<lparr>diag := diag w @ [Logdebug_indices ds, Print_vectors dout mask_v print_index],
                     hw_calls := hw_calls w @ [(dout, mask_v)]\<rparr>)"
  using assms by (simp add: dio_writer_def call_parent_write_def logw_def Let_def)

lemma dio_writer_missing:
  assumes "dio_vectors ds as padding = Inr (dout, mask_v)"
    and "capability_missing self (hw_calls w) dout mask_v"
  shows "fst (dio_writer self ds as padding w) = Inr False"
    and "diag (snd (dio_writer self ds as padding w)) =
           diag w @ [Logdebug_indices ds, Print_vectors dout mask_v print_index,
                     Logerr MSG_ATTRIBUTE_ERROR, Logerr MSG_DEVICE_NOT_FOUND]"
  using assms
  by (auto simp: dio_writer_def call_parent_write_def capability_missing_def logw_def Let_def
           split: option.splits hw_outcome.splits)

lemma dio_writer_rejected:
  assumes "dio_vectors ds as padding = Inr (dout, mask_v)"
    and "hardware_rejects self (hw_calls w) dout mask_v"
  shows "fst (dio_writer self ds as padding w) = Inr False"
    and "diag (snd (dio_writer self ds as padding w)) =
           diag w @ [Logdebug_indices ds, Print_vectors dout mask_v print_index]"
  using assms
  by (auto simp: dio_writer_def call_parent_write_def hardware_rejects_def logw_def Let_def
           split: option.splits hw_outcome.splits)

lemma BaseHands_method_raises:
  "BaseHands_method g self is_on w = (Inl (NotImplementedError MSG_ERR_NOTIMPLEMENTED), w)"
  by (cases g)
     (simp_all add: airhand_l_drawin_def airhand_r_drawin_def airhand_l_keep_def
        airhand_r_keep_def airhand_l_release_def airhand_r_release_def gripper_l_close_def
        gripper_r_close_def gripper_l_open_def gripper_r_open_def handlight_r_def
        handlight_l_def handlight_both_def handtool_l_eject_def handtool_r_eject_def
        handtool_l_attach_def handtool_r_attach_def)

lemma scenario_A_vectors:
  "dio_vectors [24] [24, 25] DIO_ASSIGN_OFF =
     Inr (replicate 23 0 @ [1] @ replicate 8 0, replicate 23 0 @ [1, 1] @ replicate 7 0)"
  by code_simp

section \<open>The claims\<close>

text \<open>
  C1. The claim: \<open>init_dio()\<close> calls the writer once with the owned indices \<open>17..32\<close>, no
  index to set and fill \<open>ASSERT\<close>, so the mask has its sixteen ones at positions
  \<open>17..32\<close> (counted from 1) and the output is \<open>ASSERT\<close> at every owned position.
  The code does not do this. \<open>range(16, 32)\<close> appends \<open>16..31\<close>, and the two names
  \<open>dout\<close> and \<open>mask\<close> are bound to one list, so the writer receives \<open>16..31\<close> both as
  the indices to set and as the owned indices, with padding \<open>1\<close>. Against a collaborator
  that accepts every write, the one call of \<open>writeDigitalOutputWithMask\<close> carries a mask
  with ones at positions \<open>16..31\<close> (counted from 1; position 16 is owned, position 32 is
  not) and an output vector that is \<open>0\<close> at exactly those positions.
\<close>

theorem init_dio_writes_channels_16_to_31:
  "init_dio_args = (map int [16..<32], map int [16..<32], DIO_ASSIGN_ON) \<and>
   init_dio \<lparr>parent_attr = Some \<lparr>truthy = True,
                 writeDigitalOutputWithMask = Some (\<lambda>calls dout mask_v. HwReturn True)\<rparr>\<rparr>
            \<lparr>hw_calls = [], diag = []\<rparr> =
     (Inr (),
      \<lparr>hw_calls = [(replicate 15 1 @ replicate 16 0 @ [1], replicate 15 0 @ replicate 16 1 @ [0])],
       diag = [Logdebug_indices (map int [16..<32]),
               Print_vectors (replicate 15 1 @ replicate 16 0 @ [1])
                             (replicate 15 0 @ replicate 16 1 @ [0]) print_index]\<rparr>)"
  by code_simp

text \<open>
  C2. For a fill value of \<open>ASSERT\<close> or \<open>DEASSERT\<close> and indices to set that are all
  channel numbers \<open>1..32\<close>, the writer produces an output vector of 32 entries which, at
  every channel \<open>c\<close> (position \<open>c - 1\<close> of the list), holds the fill value when \<open>c\<close> is not
  among the indices to set and the alternate value (\<open>ASSERT\<close> if the fill is \<open>DEASSERT\<close>,
  else \<open>DEASSERT\<close>) when it is. The owned indices are any the mask loop accepts.
\<close>

theorem dio_writer_output_fill_and_alternate:
  assumes "padding = DIO_ASSIGN_ON \<or> padding = DIO_ASSIGN_OFF"
    and "\<forall>i\<in>set digitalout_indices. is_channel i"
    and "\<forall>i\<in>set dio_assignments. py_index_ok 32 i"
  shows "\<exists>dout mask_v.
           dio_vectors digitalout_indices dio_assignments padding = Inr (dout, mask_v) \<and>
           length dout = 32 \<and>
           (\<forall>c. is_channel c \<longrightarrow>
              dout ! nat (c - 1) =
                (if c \<in> set digitalout_indices
                 then (if padding = DIO_ASSIGN_OFF then DIO_ASSIGN_ON else DIO_ASSIGN_OFF)
                 else padding))"
proof -
  let ?alt = "if padding = DIO_ASSIGN_ON then DIO_ASSIGN_OFF else DIO_ASSIGN_ON"
  let ?dout = "map (\<lambda>k. if k \<in> py_pos 32 ` set digitalout_indices then ?alt else padding) [0..<32]"
  let ?mask = "map (\<lambda>k. if k \<in> py_pos 32 ` set dio_assignments then 1 else (0::int)) [0..<32]"
  have ok: "\<forall>i\<in>set digitalout_indices. py_index_ok 32 i"
    using assms(2) channel_index_ok by blast
  have v: "dio_vectors digitalout_indices dio_assignments padding = Inr (?dout, ?mask)"
    using ok assms(3) by (rule dio_vectors_ok)
  have alt: "?alt = (if padding = DIO_ASSIGN_OFF then DIO_ASSIGN_ON else DIO_ASSIGN_OFF)"
    using assms(1) by (auto simp: DIO_ASSIGN_ON_def DIO_ASSIGN_OFF_def)
  have "?dout ! nat (c - 1) =
          (if c \<in> set digitalout_indices
           then (if padding = DIO_ASSIGN_OFF then DIO_ASSIGN_ON else DIO_ASSIGN_OFF)
           else padding)" if c: "is_channel c" for c
  proof -
    from c have lt: "nat (c - 1) < 32" unfolding is_channel_def by linarith
    have "?dout ! nat (c - 1) =
            (if nat (c - 1) \<in> py_pos 32 ` set digitalout_indices then ?alt else padding)"
      using lt by (simp del: upt_Suc)
    then show ?thesis
      unfolding channel_pos_mem [OF assms(2) c] alt .
  qed
  then show ?thesis using v by (intro exI [of _ ?dout] exI [of _ ?mask]) simp
qed

theorem dio_writer_output_fill_and_alternate_witness:
  "(DIO_ASSIGN_OFF = DIO_ASSIGN_ON \<or> DIO_ASSIGN_OFF = DIO_ASSIGN_OFF) \<and>
   list_all (is_channel) [24] \<and>
   list_all (py_index_ok 32) [24, 25] \<and>
   (\<exists>dout mask_v.
      dio_vectors [24] [24, 25] DIO_ASSIGN_OFF = Inr (dout, mask_v) \<and>
      length dout = 32 \<and>
      (\<forall>c. is_channel c \<longrightarrow>
         dout ! nat (c - 1) =
           (if c \<in> set [24]
            then (if DIO_ASSIGN_OFF = DIO_ASSIGN_OFF then DIO_ASSIGN_ON else DIO_ASSIGN_OFF)
            else DIO_ASSIGN_OFF)))"
proof -
  have h1: "DIO_ASSIGN_OFF = DIO_ASSIGN_ON \<or> DIO_ASSIGN_OFF = DIO_ASSIGN_OFF" by simp
  have h2: "\<forall>i\<in>set [24]. is_channel i" by (simp add: is_channel_def)
  have h3: "\<forall>i\<in>set [24, 25]. py_index_ok 32 i" by (simp add: py_index_ok_def)
  have c: "list_all (is_channel) [24]" "list_all (py_index_ok 32) [24, 25]"
    using h2 h3 by (simp_all add: list_all_iff)
  show ?thesis
    by (rule conjI [OF h1 conjI [OF c(1) conjI [OF c(2)
          dio_writer_output_fill_and_alternate [OF h1 h2 h3]]]])
qed

text \<open>
  C3. For owned indices that are distinct channel numbers \<open>1..32\<close>, any fill value and any
  indices to set that the output loop accepts, the writer produces a mask vector of 32
  entries with exactly as many ones as there are owned indices, a one at every owned
  channel and a zero at every other channel; with no owned index the mask is all zero.
\<close>

theorem dio_writer_mask_owned_exactly:
  assumes "distinct dio_assignments"
    and "\<forall>i\<in>set dio_assignments. is_channel i"
    and "\<forall>i\<in>set digitalout_indices. py_index_ok 32 i"
  shows "\<exists>dout mask_v.
           dio_vectors digitalout_indices dio_assignments padding = Inr (dout, mask_v) \<and>
           length mask_v = 32 \<and>
           count_list mask_v 1 = length dio_assignments \<and>
           (\<forall>c. is_channel c \<longrightarrow>
              mask_v ! nat (c - 1) = (if c \<in> set dio_assignments then 1 else 0)) \<and>
           (dio_assignments = [] \<longrightarrow> mask_v = replicate 32 0)"
proof -
  let ?alt = "if padding = DIO_ASSIGN_ON then DIO_ASSIGN_OFF else DIO_ASSIGN_ON"
  let ?dout = "map (\<lambda>k. if k \<in> py_pos 32 ` set digitalout_indices then ?alt else padding) [0..<32]"
  let ?mask = "map (\<lambda>k. if k \<in> py_pos 32 ` set dio_assignments then 1 else (0::int)) [0..<32]"
  have ok: "\<forall>i\<in>set dio_assignments. py_index_ok 32 i"
    using assms(2) channel_index_ok by blast
  have v: "dio_vectors digitalout_indices dio_assignments padding = Inr (?dout, ?mask)"
    using assms(3) ok by (rule dio_vectors_ok)
  have len: "length ?mask = 32" by simp
  have cnt: "count_list ?mask 1 = length dio_assignments"
    using count_owned [OF assms(2)] distinct_card [OF assms(1)] by simp
  have pos: "\<forall>c. is_channel c \<longrightarrow> ?mask ! nat (c - 1) = (if c \<in> set dio_assignments then 1 else 0)"
    using mask_nth [OF assms(2)] by blast
  have empty: "dio_assignments = [] \<longrightarrow> ?mask = replicate 32 0"
    by (simp add: map_replicate_const del: upt_Suc)
  show ?thesis
    using v len cnt pos empty by (intro exI [of _ ?dout] exI [of _ ?mask] conjI)
qed

theorem dio_writer_mask_owned_exactly_witness:
  "distinct [24, 25 :: int] \<and>
   list_all (is_channel) [24, 25] \<and>
   list_all (py_index_ok 32) [24] \<and>
   (\<exists>dout mask_v.
      dio_vectors [24] [24, 25] DIO_ASSIGN_OFF = Inr (dout, mask_v) \<and>
      length mask_v = 32 \<and>
      count_list mask_v 1 = length [24, 25 :: int] \<and>
      (\<forall>c. is_channel c \<longrightarrow> mask_v ! nat (c - 1) = (if c \<in> set [24, 25] then 1 else 0)) \<and>
      ([24, 25 :: int] = [] \<longrightarrow> mask_v = replicate 32 0))"
proof -
  have h1: "distinct [24, 25 :: int]" by simp
  have h2: "\<forall>i\<in>set [24, 25]. is_channel i" by (simp add: is_channel_def)
  have h3: "\<forall>i\<in>set [24]. py_index_ok 32 i" by (simp add: py_index_ok_def)
  have c: "list_all (is_channel) [24, 25]" "list_all (py_index_ok 32) [24]"
    using h2 h3 by (simp_all add: list_all_iff)
  show ?thesis
    by (rule conjI [OF h1 conjI [OF c(1) conjI [OF c(2)
          dio_writer_mask_owned_exactly [OF h1 h2 h3]]]])
qed

text \<open>
  C4. When the writer reaches the hardware call and the capability is missing (no
  \<open>_parent\<close>, no such method, or the method raises \<open>AttributeError\<close>), no exception
  leaves the writer, it returns \<open>False\<close>, and it logs its error diagnostic, the two
  \<open>rospy.logerr\<close> lines of the handler. When instead the hardware takes the call and
  answers \<open>False\<close>, the writer returns \<open>False\<close> and logs nothing at error severity, so
  the log tells the two failures apart.
\<close>

theorem dio_writer_capability_missing_reported:
  assumes "dio_vectors digitalout_indices dio_assignments padding = Inr (dout, mask_v)"
  shows "(capability_missing self (hw_calls w) dout mask_v \<longrightarrow>
            fst (dio_writer self digitalout_indices dio_assignments padding w) = Inr False \<and>
            filter is_error_entry (diag (snd (dio_writer self digitalout_indices dio_assignments padding w))) =
              filter is_error_entry (diag w) @ [Logerr MSG_ATTRIBUTE_ERROR, Logerr MSG_DEVICE_NOT_FOUND]) \<and>
         (hardware_rejects self (hw_calls w) dout mask_v \<longrightarrow>
            fst (dio_writer self digitalout_indices dio_assignments padding w) = Inr False \<and>
            filter is_error_entry (diag (snd (dio_writer self digitalout_indices dio_assignments padding w))) =
              filter is_error_entry (diag w))"
  using dio_writer_missing [OF assms] dio_writer_rejected [OF assms] by simp

theorem dio_writer_capability_missing_reported_witness:
  "(capability_missing \<lparr>parent_attr = None\<rparr> [] (replicate 23 0 @ [1] @ replicate 8 0)
       (replicate 23 0 @ [1, 1] @ replicate 7 0) \<and>
    fst (dio_writer \<lparr>parent_attr = None\<rparr> [24] [24, 25] DIO_ASSIGN_OFF \<lparr>hw_calls = [], diag = []\<rparr>)
      = Inr False \<and>
    filter is_error_entry
      (diag (snd (dio_writer \<lparr>parent_attr = None\<rparr> [24] [24, 25] DIO_ASSIGN_OFF
                    \<lparr>hw_calls = [], diag = []\<rparr>))) =
      [Logerr MSG_ATTRIBUTE_ERROR, Logerr MSG_DEVICE_NOT_FOUND]) \<and>
   (hardware_rejects
       \<lparr>parent_attr = Some \<lparr>truthy = True,
          writeDigitalOutputWithMask = Some (\<lambda>calls dout mask_v. HwReturn False)\<rparr>\<rparr>
       [] (replicate 23 0 @ [1] @ replicate 8 0) (replicate 23 0 @ [1, 1] @ replicate 7 0) \<and>
    fst (dio_writer
       \<lparr>parent_attr = Some \<lparr>truthy = True,
          writeDigitalOutputWithMask = Some (\<lambda>calls dout mask_v. HwReturn False)\<rparr>\<rparr>
       [24] [24, 25] DIO_ASSIGN_OFF \<lparr>hw_calls = [], diag = []\<rparr>) = Inr False \<and>
    filter is_error_entry
      (diag (snd (dio_writer
         \<lparr>parent_attr = Some \<lparr>truthy = True,
            writeDigitalOutputWithMask = Some (\<lambda>calls dout mask_v. HwReturn False)\<rparr>\<rparr>
         [24] [24, 25] DIO_ASSIGN_OFF \<lparr>hw_calls = [], diag = []\<rparr>))) = [])"
  using dio_writer_capability_missing_reported [OF scenario_A_vectors, of "\<lparr>parent_attr = None\<rparr>" "\<lparr>hw_calls = [], diag = []\<rparr>"]
        dio_writer_capability_missing_reported [OF scenario_A_vectors,
            of "\<lparr>parent_attr = Some \<lparr>truthy = True,
                  writeDigitalOutputWithMask = Some (\<lambda>calls dout mask_v. HwReturn False)\<rparr>\<rparr>"
               "\<lparr>hw_calls = [], diag = []\<rparr>"]
  by (simp add: capability_missing_def hardware_rejects_def)

text \<open>
  C5. The claim: constructing a hand controller with a missing or falsy parent fails with
  a construction error and yields no object. The code has no such error: on a falsy
  parent \<open>__init__\<close> returns early and the construction yields an instance on which
  \<open>_parent\<close> is not set, as the docstring of \<open>__init__\<close> says.
\<close>

theorem BaseHands_init_no_construction_error:
  "BaseHands_init \<lparr>truthy = False, writeDigitalOutputWithMask = None\<rparr> = Inr \<lparr>parent_attr = None\<rparr>"
  by (simp add: BaseHands_init_def)

text \<open>
  C5, as the code has it: for every falsy parent the construction returns normally, with
  an instance that has no \<open>_parent\<close> attribute.
\<close>

theorem BaseHands_init_falsy_parent_returns:
  "\<not> truthy parent \<Longrightarrow> BaseHands_init parent = Inr \<lparr>parent_attr = None\<rparr>"
  by (simp add: BaseHands_init_def)

theorem BaseHands_init_falsy_parent_returns_witness:
  "\<not> truthy \<lparr>truthy = False, writeDigitalOutputWithMask = Some (\<lambda>calls dout mask_v. HwReturn True)\<rparr> \<and>
   BaseHands_init \<lparr>truthy = False, writeDigitalOutputWithMask = Some (\<lambda>calls dout mask_v. HwReturn True)\<rparr>
     = Inr \<lparr>parent_attr = None\<rparr>"
  using BaseHands_init_falsy_parent_returns [of "\<lparr>truthy = False, writeDigitalOutputWithMask = Some (\<lambda>calls dout mask_v. HwReturn True)\<rparr>"]
  by simp

text \<open>
  C6. A gesture that the derived class does not override, called on any instance with any
  \<open>is_on\<close> in any world, raises \<open>NotImplementedError\<close> with the message
  \<open>The method is not implemented in the derived class\<close> and leaves the world as it was:
  nothing is written and nothing is logged.
\<close>

theorem unoverridden_gesture_not_implemented:
  assumes "overrides g = None"
  shows "call_gesture overrides g self is_on w =
           (Inl (NotImplementedError ''The method is not implemented in the derived class''), w)"
  using assms by (simp add: call_gesture_def BaseHands_method_raises MSG_ERR_NOTIMPLEMENTED_def)

theorem unoverridden_gesture_not_implemented_witness:
  "(\<lambda>g. if g = Gripper_l_close then Some (\<lambda>self is_on w. (Inr True, w)) else None) Handlight_both = None \<and>
   call_gesture (\<lambda>g. if g = Gripper_l_close then Some (\<lambda>self is_on w. (Inr True, w)) else None)
      Handlight_both \<lparr>parent_attr = None\<rparr> True \<lparr>hw_calls = [], diag = []\<rparr> =
     (Inl (NotImplementedError ''The method is not implemented in the derived class''),
      \<lparr>hw_calls = [], diag = []\<rparr>)"
  using unoverridden_gesture_not_implemented [of "\<lambda>g. if g = Gripper_l_close then Some (\<lambda>self is_on w. (Inr True, w)) else None"
               Handlight_both "\<lparr>parent_attr = None\<rparr>" True "\<lparr>hw_calls = [], diag = []\<rparr>"]
  by simp

text \<open>
  C7. On a call of the writer within its contract (an instance whose parent has the
  method, indices that the two assignment loops accept), the capability is invoked exactly
  once, with the two vectors the writer computed, and when that invocation returns a bool
  the writer returns the same bool.
\<close>

theorem dio_writer_single_hardware_call:
  assumes "parent_attr self = Some p" and "writeDigitalOutputWithMask p = Some f"
    and "\<forall>i\<in>set digitalout_indices. py_index_ok 32 i"
    and "\<forall>i\<in>set dio_assignments. py_index_ok 32 i"
  shows "\<exists>dout mask_v.
           dio_vectors digitalout_indices dio_assignments padding = Inr (dout, mask_v) \<and>
           calls_made w (snd (dio_writer self digitalout_indices dio_assignments padding w)) =
             [(dout, mask_v)] \<and>
           (\<forall>b. f (hw_calls w) dout mask_v = HwReturn b \<longrightarrow>
              fst (dio_writer self digitalout_indices dio_assignments padding w) = Inr b)"
proof -
  from dio_vectors_ok [OF assms(3,4)] obtain dout mask_v
    where v: "dio_vectors digitalout_indices dio_assignments padding = Inr (dout, mask_v)"
    by blast
  have c: "calls_made w (snd (dio_writer self digitalout_indices dio_assignments padding w)) =
             [(dout, mask_v)]"
    by (simp add: dio_writer_calls_made v assms(1,2))
  have r: "fst (dio_writer self digitalout_indices dio_assignments padding w) = Inr b"
    if "f (hw_calls w) dout mask_v = HwReturn b" for b
    using dio_writer_returns [OF v assms(1,2) that] by simp
  from v c r show ?thesis by blast
qed

theorem dio_writer_single_hardware_call_witness:
  "\<exists>dout mask_v.
     dio_vectors [24] [24, 25] DIO_ASSIGN_OFF = Inr (dout, mask_v) \<and>
     calls_made \<lparr>hw_calls = [], diag = []\<rparr>
       (snd (dio_writer
          \<lparr>parent_attr = Some \<lparr>truthy = True,
             writeDigitalOutputWithMask = Some (\<lambda>calls dout mask_v. HwReturn (calls = []))\<rparr>\<rparr>
          [24] [24, 25] DIO_ASSIGN_OFF \<lparr>hw_calls = [], diag = []\<rparr>)) = [(dout, mask_v)] \<and>
     fst (dio_writer
          \<lparr>parent_attr = Some \<lparr>truthy = True,
             writeDigitalOutputWithMask = Some (\<lambda>calls dout mask_v. HwReturn (calls = []))\<rparr>\<rparr>
          [24] [24, 25] DIO_ASSIGN_OFF \<lparr>hw_calls = [], diag = []\<rparr>) = Inr True"
  using dio_writer_single_hardware_call [of "\<lparr>parent_attr = Some \<lparr>truthy = True,
                  writeDigitalOutputWithMask = Some (\<lambda>calls dout mask_v. HwReturn (calls = []))\<rparr>\<rparr>"
               "\<lparr>truthy = True,
                  writeDigitalOutputWithMask = Some (\<lambda>calls dout mask_v. HwReturn (calls = []))\<rparr>"
               "\<lambda>calls dout mask_v. HwReturn (calls = [])"
               "[24]" "[24, 25]" DIO_ASSIGN_OFF "\<lparr>hw_calls = [], diag = []\<rparr>"]
  by (auto simp: py_index_ok_def)

text \<open>
  C8. Two calls of the writer in a row with the same arguments hand the same
  (output, mask) pairs to the collaborator, whatever the collaborator did on the first
  call and however its answers depend on the calls it has seen; within the writer's
  contract each of the two calls hands over exactly one pair, the same one.
\<close>

theorem dio_writer_repeat_same_vectors:
  "(let (r1, w1) = dio_writer self digitalout_indices dio_assignments padding w;
        (r2, w2) = dio_writer self digitalout_indices dio_assignments padding w1
    in calls_made w1 w2 = calls_made w w1 \<and>
       (parent_attr self = Some p \<and> writeDigitalOutputWithMask p = Some f \<and>
        (\<forall>i\<in>set digitalout_indices. py_index_ok 32 i) \<and>
        (\<forall>i\<in>set dio_assignments. py_index_ok 32 i) \<longrightarrow>
          (\<exists>dout mask_v. calls_made w w1 = [(dout, mask_v)] \<and>
                          calls_made w1 w2 = [(dout, mask_v)])))"
proof -
  have "\<exists>dout mask_v. dio_vectors digitalout_indices dio_assignments padding = Inr (dout, mask_v)"
    if "\<forall>i\<in>set digitalout_indices. py_index_ok 32 i" "\<forall>i\<in>set dio_assignments. py_index_ok 32 i"
    using dio_vectors_ok [OF that] by blast
  then show ?thesis
    by (auto simp: split_beta Let_def dio_writer_calls_made)
qed

theorem dio_writer_repeat_same_vectors_witness:
  "\<exists>dout mask_v.
     calls_made \<lparr>hw_calls = [], diag = []\<rparr>
       (snd (dio_writer
          \<lparr>parent_attr = Some \<lparr>truthy = True,
             writeDigitalOutputWithMask = Some (\<lambda>calls dout mask_v. HwReturn (calls = []))\<rparr>\<rparr>
          [24] [24, 25] DIO_ASSIGN_OFF \<lparr>hw_calls = [], diag = []\<rparr>)) = [(dout, mask_v)] \<and>
     calls_made
       (snd (dio_writer
          \<lparr>parent_attr = Some \<lparr>truthy = True,
             writeDigitalOutputWithMask = Some (\<lambda>calls dout mask_v. HwReturn (calls = []))\<rparr>\<rparr>
          [24] [24, 25] DIO_ASSIGN_OFF \<lparr>hw_calls = [], diag = []\<rparr>))
       (snd (dio_writer
          \<lparr>parent_attr = Some \<lparr>truthy = True,
             writeDigitalOutputWithMask = Some (\<lambda>calls dout mask_v. HwReturn (calls = []))\<rparr>\<rparr>
          [24] [24, 25] DIO_ASSIGN_OFF
          (snd (dio_writer
             \<lparr>parent_attr = Some \<lparr>truthy = True,
                writeDigitalOutputWithMask = Some (\<lambda>calls dout mask_v. HwReturn (calls = []))\<rparr>\<rparr>
             [24] [24, 25] DIO_ASSIGN_OFF \<lparr>hw_calls = [], diag = []\<rparr>)))) = [(dout, mask_v)]"
  using dio_writer_repeat_same_vectors [of "\<lparr>parent_attr = Some \<lparr>truthy = True,
                  writeDigitalOutputWithMask = Some (\<lambda>calls dout mask_v. HwReturn (calls = []))\<rparr>\<rparr>"
               "[24]" "[24, 25]" DIO_ASSIGN_OFF "\<lparr>hw_calls = [], diag = []\<rparr>"
               "\<lparr>truthy = True,
                  writeDigitalOutputWithMask = Some (\<lambda>calls dout mask_v. HwReturn (calls = []))\<rparr>"
               "\<lambda>calls dout mask_v. HwReturn (calls = [])"]
  by (auto simp: py_index_ok_def split_beta Let_def)

text \<open>
  C9. The claim: an index \<open>0\<close> among the indices to set or the owned indices sets no
  position of either vector. The code does set one: \<open>xs[0 - 1]\<close> is \<open>xs[-1]\<close>, the last
  element, so index \<open>0\<close> among the indices to set changes position 32 (counted from 1) of
  the output vector, and index \<open>0\<close> among the owned indices changes position 32 of the
  mask, compared with the call without it.
\<close>

theorem dio_writer_index_zero_sets_position_32:
  "dio_vectors [0] [] DIO_ASSIGN_OFF = Inr (replicate 31 0 @ [1], replicate 32 0) \<and>
   dio_vectors [] [0] DIO_ASSIGN_OFF = Inr (replicate 32 0, replicate 31 0 @ [1]) \<and>
   dio_vectors [] [] DIO_ASSIGN_OFF = Inr (replicate 32 0, replicate 32 0)"
  by code_simp

text \<open>
  C9, as the code has it: the writer checks no index; whenever both loops accept their
  indices, an index \<open>0\<close> among the indices to set leaves the alternate value at the last
  position of the output vector, and an index \<open>0\<close> among the owned indices leaves a one
  at the last position of the mask.
\<close>

theorem dio_writer_index_zero_is_last_position:
  assumes "\<forall>i\<in>set digitalout_indices. py_index_ok 32 i"
    and "\<forall>i\<in>set dio_assignments. py_index_ok 32 i"
  shows "\<exists>dout mask_v.
           dio_vectors digitalout_indices dio_assignments padding = Inr (dout, mask_v) \<and>
           (0 \<in> set digitalout_indices \<longrightarrow>
              dout ! 31 = (if padding = DIO_ASSIGN_ON then DIO_ASSIGN_OFF else DIO_ASSIGN_ON)) \<and>
           (0 \<in> set dio_assignments \<longrightarrow> mask_v ! 31 = 1)"
proof -
  have p: "py_pos 32 0 = 31" by (simp add: py_pos_def)
  have m: "0 \<in> set ixs \<Longrightarrow> (31::nat) \<in> py_pos 32 ` set ixs" for ixs
    using p by force
  have n: "map g [0..<32] ! 31 = g 31" for g :: "nat \<Rightarrow> int"
    by (simp del: upt_Suc)
  show ?thesis
    unfolding dio_vectors_ok [OF assms] using m by (simp add: n del: upt_Suc)
qed

theorem dio_writer_index_zero_is_last_position_witness:
  "list_all (py_index_ok 32) [0] \<and>
   list_all (py_index_ok 32) [0, 24] \<and>
   (\<exists>dout mask_v.
      dio_vectors [0] [0, 24] DIO_ASSIGN_OFF = Inr (dout, mask_v) \<and>
      dout ! 31 = DIO_ASSIGN_ON \<and> mask_v ! 31 = 1)"
proof -
  have h1: "\<forall>i\<in>set [0]. py_index_ok 32 i" by (simp add: py_index_ok_def)
  have h2: "\<forall>i\<in>set [0, 24]. py_index_ok 32 i" by (simp add: py_index_ok_def)
  from dio_writer_index_zero_is_last_position [OF h1 h2, of DIO_ASSIGN_OFF]
  have "\<exists>dout mask_v.
      dio_vectors [0] [0, 24] DIO_ASSIGN_OFF = Inr (dout, mask_v) \<and>
      dout ! 31 = DIO_ASSIGN_ON \<and> mask_v ! 31 = 1"
    by (simp add: DIO_ASSIGN_ON_def DIO_ASSIGN_OFF_def)
  moreover have "list_all (py_index_ok 32) [0]" "list_all (py_index_ok 32) [0, 24]"
    using h1 h2 by (simp_all add: list_all_iff)
  ultimately show ?thesis by (intro conjI)
qed

text \<open>
  C10. For owned indices that are channel numbers \<open>1..32\<close>, duplicates allowed, the mask
  has a one exactly at the listed channels, the number of ones is the number of distinct
  values, and the writer computes the same vectors as for the list without its duplicates.
\<close>

theorem dio_writer_mask_duplicates_idempotent:
  assumes "\<forall>i\<in>set dio_assignments. is_channel i"
    and "\<forall>i\<in>set digitalout_indices. py_index_ok 32 i"
  shows "\<exists>dout mask_v.
           dio_vectors digitalout_indices dio_assignments padding = Inr (dout, mask_v) \<and>
           dio_vectors digitalout_indices (remdups dio_assignments) padding = Inr (dout, mask_v) \<and>
           count_list mask_v 1 = card (set dio_assignments) \<and>
           (\<forall>c. is_channel c \<longrightarrow>
              mask_v ! nat (c - 1) = (if c \<in> set dio_assignments then 1 else 0))"
proof -
  let ?alt = "if padding = DIO_ASSIGN_ON then DIO_ASSIGN_OFF else DIO_ASSIGN_ON"
  let ?dout = "map (\<lambda>k. if k \<in> py_pos 32 ` set digitalout_indices then ?alt else padding) [0..<32]"
  let ?mask = "map (\<lambda>k. if k \<in> py_pos 32 ` set dio_assignments then 1 else (0::int)) [0..<32]"
  have ok: "\<forall>i\<in>set dio_assignments. py_index_ok 32 i"
    using assms(1) channel_index_ok by blast
  have v: "dio_vectors digitalout_indices dio_assignments padding = Inr (?dout, ?mask)"
    using assms(2) ok by (rule dio_vectors_ok)
  have ok': "\<forall>i\<in>set (remdups dio_assignments). py_index_ok 32 i"
    using ok by simp
  have v': "dio_vectors digitalout_indices (remdups dio_assignments) padding = Inr (?dout, ?mask)"
    using dio_vectors_ok [OF assms(2) ok', of padding] by (simp only: set_remdups)
  have cnt: "count_list ?mask 1 = card (set dio_assignments)"
    by (rule count_owned [OF assms(1)])
  have pos: "\<forall>c. is_channel c \<longrightarrow> ?mask ! nat (c - 1) = (if c \<in> set dio_assignments then 1 else 0)"
    using mask_nth [OF assms(1)] by blast
  show ?thesis
    using v v' cnt pos by (intro exI [of _ ?dout] exI [of _ ?mask] conjI)
qed

theorem dio_writer_mask_duplicates_idempotent_witness:
  "list_all (is_channel) [24, 25, 24] \<and>
   list_all (py_index_ok 32) [] \<and>
   \<not> distinct [24, 25, 24 :: int] \<and>
   (\<exists>dout mask_v.
      dio_vectors [] [24, 25, 24] DIO_ASSIGN_OFF = Inr (dout, mask_v) \<and>
      dio_vectors [] (remdups [24, 25, 24]) DIO_ASSIGN_OFF = Inr (dout, mask_v) \<and>
      count_list mask_v 1 = card (set [24, 25, 24 :: int]) \<and>
      (\<forall>c. is_channel c \<longrightarrow> mask_v ! nat (c - 1) = (if c \<in> set [24, 25, 24] then 1 else 0)))"
proof -
  have h1: "\<forall>i\<in>set [24, 25, 24]. is_channel i" by (simp add: is_channel_def)
  have h2: "\<forall>i\<in>set []. py_index_ok 32 i" by simp
  have h3: "\<not> distinct [24, 25, 24 :: int]" by simp
  have c: "list_all (is_channel) [24, 25, 24]" "list_all (py_index_ok 32) []"
    using h1 h2 by (simp_all add: list_all_iff)
  show ?thesis
    by (rule conjI [OF c(1) conjI [OF c(2) conjI [OF h3
          dio_writer_mask_duplicates_idempotent [OF h1 h2]]]])
qed

end
